theory Spec2Isabelle
  imports Main "HOL-Library.Word" "HOL-Library.Char_ord" "HOL-Library.List_Lexorder"
begin

section \<open>Go values used by pkg/asset/installconfig/aws/validation.go\<close>

text \<open>
  A Go \<^verbatim>\<open>error\<close> is identified with the text its \<^verbatim>\<open>Error()\<close> method returns:
  the validator never inspects an error in any other way. A dereference of a nil
  pointer is the only way a modelled function can fail to return; it is a value
  of type \<open>panic\<close>.
\<close>

type_synonym error = string

datatype panic = NilPointerDereference

subsection \<open>The field package: paths and errors\<close>

text \<open>
  \<^verbatim>\<open>field.Path\<close> is kept as the list of its elements (root first), and the
  \<^verbatim>\<open>Field\<close> of an error as the path it was built from, \<open>None\<close> for a nil
  \<^verbatim>\<open>*field.Path\<close> (rendered \<^verbatim>\<open><nil>\<close> by Go). \<^verbatim>\<open>BadValue\<close> is an
  \<^verbatim>\<open>interface{}\<close>; the validator stores nil, a string or a string slice there.
\<close>

datatype ErrorType = ErrorTypeInvalid | ErrorTypeRequired | ErrorTypeInternal

datatype PathElement = Name string | Index nat

type_synonym Path = "PathElement list"

datatype Value = NilValue | StringValue string | StringsValue "string list"

record Error =
  Type :: ErrorType
  FieldPath :: "Path option"
  BadValue :: Value
  Detail :: string

type_synonym ErrorList = "Error list"

definition NewPath :: "string \<Rightarrow> string list \<Rightarrow> Path" where
  "NewPath name moreNames = Name name # map Name moreNames"

definition Child :: "Path \<Rightarrow> string \<Rightarrow> string list \<Rightarrow> Path" where
  "Child p name moreNames = p @ Name name # map Name moreNames"

definition PathIndex :: "Path \<Rightarrow> nat \<Rightarrow> Path" where
  "PathIndex p i = p @ [Index i]"

definition Invalid :: "Path option \<Rightarrow> Value \<Rightarrow> string \<Rightarrow> Error" where
  "Invalid field v detail =
     \<lparr>Type = ErrorTypeInvalid, FieldPath = field, BadValue = v, Detail = detail\<rparr>"

definition Required :: "Path option \<Rightarrow> string \<Rightarrow> Error" where
  "Required field detail =
     \<lparr>Type = ErrorTypeRequired, FieldPath = field, BadValue = StringValue [], Detail = detail\<rparr>"

definition InternalError :: "Path option \<Rightarrow> error \<Rightarrow> Error" where
  "InternalError field err =
     \<lparr>Type = ErrorTypeInternal, FieldPath = field, BadValue = NilValue, Detail = err\<rparr>"

text \<open>
  \<^verbatim>\<open>ErrorList.ToAggregate\<close> walks the list and keeps a diagnostic unless an
  earlier one renders to the same text; the empty list becomes the nil error,
  here the empty list. The rendering \<^verbatim>\<open>Error()\<close> belongs to the field
  package and is the parameter \<open>errorText\<close>.
\<close>

fun ToAggregateLoop :: "(Error \<Rightarrow> string) \<Rightarrow> string set \<Rightarrow> ErrorList \<Rightarrow> ErrorList" where
  "ToAggregateLoop errorText errorMsgs [] = []"
| "ToAggregateLoop errorText errorMsgs (err # list) =
     (let msg = errorText err in
        if msg \<in> errorMsgs then ToAggregateLoop errorText errorMsgs list
        else err # ToAggregateLoop errorText (insert msg errorMsgs) list)"

definition ToAggregate :: "(Error \<Rightarrow> string) \<Rightarrow> ErrorList \<Rightarrow> ErrorList" where
  "ToAggregate errorText list = ToAggregateLoop errorText {} list"

subsection \<open>fmt verbs\<close>

text \<open>
  \<^verbatim>\<open>%s\<close> of a \<^verbatim>\<open>[]string\<close> prints the elements between brackets, separated
  by one space. \<^verbatim>\<open>%d\<close> prints a signed integer in decimal. \<^verbatim>\<open>%q\<close> prints a
  double-quoted string; the escaping of quotes, backslashes and unprintable
  characters is left out (domain names hold none).
\<close>

fun joinWith :: "string \<Rightarrow> string list \<Rightarrow> string" where
  "joinWith sep [] = []"
| "joinWith sep [x] = x"
| "joinWith sep (x # y # ys) = x @ sep @ joinWith sep (y # ys)"

definition SprintStrings :: "string list \<Rightarrow> string" where
  "SprintStrings xs = ''['' @ joinWith '' '' xs @ '']''"

definition digitChar :: "nat \<Rightarrow> char" where
  "digitChar d = ''0123456789'' ! d"

fun SprintNat :: "nat \<Rightarrow> string" where
  "SprintNat n = (if n < 10 then [digitChar n] else SprintNat (n div 10) @ [digitChar (n mod 10)])"

declare SprintNat.simps [simp del]

definition SprintInt :: "int \<Rightarrow> string" where
  "SprintInt i = (if i < 0 then CHR ''-'' # SprintNat (nat (- i)) else SprintNat (nat i))"

definition Quote :: "string \<Rightarrow> string" where
  "Quote s = CHR 0x22 # s @ [CHR 0x22]"

definition HasSuffix :: "string \<Rightarrow> string \<Rightarrow> bool" where
  "HasSuffix s suffix =
     (length suffix \<le> length s \<and> drop (length s - length suffix) s = suffix)"

subsection \<open>The net package, as far as the validator calls it\<close>

text \<open>
  \<^verbatim>\<open>net.ParseCIDR\<close>, \<^verbatim>\<open>(*net.IPNet).Contains\<close> and \<^verbatim>\<open>net.IP.String\<close> belong to
  Go's standard library, not to this repository: the validator is modelled over
  any implementation of the three, for any representation \<open>'ip\<close> of an address
  and \<open>'net\<close> of a network. \<open>ParseCIDR\<close> returns the address as the string
  writes it and the network implied by that address and the prefix length, or
  nothing when the string is no CIDR; the error of that case reads
  \<^verbatim>\<open>invalid CIDR address: \<close> followed by the string.
\<close>

record ('ip, 'net) netlib =
  ParseCIDR :: "string \<Rightarrow> ('ip \<times> 'net) option"
  Contains :: "'net \<Rightarrow> 'ip \<Rightarrow> bool"
  IPString :: "'ip \<Rightarrow> string"

definition ParseErrorText :: "string \<Rightarrow> error" where
  "ParseErrorText s = ''invalid CIDR address: '' @ s"

subsection \<open>An IPv4 instance of the net package\<close>

text \<open>
  The instance used to run the validator on concrete inputs. An address is the
  number its four bytes spell, a network is its first address and the number of
  leading ones of its mask. \<open>ParseCIDR4\<close> reads \<^verbatim>\<open>a.b.c.d/n\<close> with decimal
  fields (\<open>a\<close> to \<open>d\<close> at most 255, \<open>n\<close> at most 32) and returns the address
  as written together with the network of that address, as Go documents it:
  \<^verbatim>\<open>ParseCIDR("192.0.2.1/24")\<close> returns the address \<^verbatim>\<open>192.0.2.1\<close> and the
  network \<^verbatim>\<open>192.0.2.0/24\<close>. \<open>Contains4\<close> compares the bits under the mask.
  The instance is applied to IPv4 strings without leading zeros only; no theorem
  about all inputs depends on it.
\<close>

record IPNet =
  IP :: nat
  Ones :: nat

definition isDigit :: "char \<Rightarrow> bool" where
  "isDigit c = (c \<in> set ''0123456789'')"

definition digitValue :: "char \<Rightarrow> nat" where
  "digitValue c = length (takeWhile (\<lambda>d. d \<noteq> c) ''0123456789'')"

definition dtoi :: "string \<Rightarrow> nat option" where
  "dtoi s = (if s \<noteq> [] \<and> list_all isDigit s
             then Some (foldl (\<lambda>n c. 10 * n + digitValue c) 0 s) else None)"

fun splitOn :: "char \<Rightarrow> string \<Rightarrow> string list" where
  "splitOn sep [] = [[]]"
| "splitOn sep (c # cs) =
     (if c = sep then [] # splitOn sep cs
      else (case splitOn sep cs of [] \<Rightarrow> [[c]] | f # fs \<Rightarrow> (c # f) # fs))"

definition parseIPv4 :: "string \<Rightarrow> nat option" where
  "parseIPv4 s =
     (case map dtoi (splitOn (CHR ''.'') s) of
        [Some a, Some b, Some c, Some d] \<Rightarrow>
          if a \<le> 255 \<and> b \<le> 255 \<and> c \<le> 255 \<and> d \<le> 255
          then Some (((a * 256 + b) * 256 + c) * 256 + d) else None
      | _ \<Rightarrow> None)"

definition ParseCIDR4 :: "string \<Rightarrow> (nat \<times> IPNet) option" where
  "ParseCIDR4 s =
     (case splitOn (CHR ''/'') s of
        [addr, msk] \<Rightarrow>
          (case (parseIPv4 addr, dtoi msk) of
             (Some ip, Some n) \<Rightarrow>
               if n \<le> 32 then Some (ip, \<lparr>IP = ip - ip mod 2 ^ (32 - n), Ones = n\<rparr>)
               else None
           | _ \<Rightarrow> None)
      | _ \<Rightarrow> None)"

definition Contains4 :: "IPNet \<Rightarrow> nat \<Rightarrow> bool" where
  "Contains4 n ip = (ip div 2 ^ (32 - Ones n) = IP n div 2 ^ (32 - Ones n))"

definition IPString4 :: "nat \<Rightarrow> string" where
  "IPString4 ip =
     SprintNat (ip div 16777216) @ ''.'' @ SprintNat (ip div 65536 mod 256)
       @ ''.'' @ SprintNat (ip div 256 mod 256) @ ''.'' @ SprintNat (ip mod 256)"

definition ipv4 :: "(nat, IPNet) netlib" where
  "ipv4 = \<lparr>ParseCIDR = ParseCIDR4, Contains = Contains4, IPString = IPString4\<rparr>"

subsection \<open>Maps\<close>

text \<open>
  A Go map that the validator ranges over is an association list with distinct
  keys; the order of the list is the order in which this run's \<^verbatim>\<open>range\<close>
  visits the entries, which Go leaves unspecified. Reading a missing key yields
  the zero value of the element type.
\<close>

type_synonym 'v gomap = "(string \<times> 'v) list"

definition hasKey :: "'v gomap \<Rightarrow> string \<Rightarrow> bool" where
  "hasKey m k = (map_of m k \<noteq> None)"

definition indexOf :: "(string \<rightharpoonup> nat) \<Rightarrow> string \<Rightarrow> nat" where
  "indexOf idxMap id' = (case idxMap id' of None \<Rightarrow> 0 | Some idx \<Rightarrow> idx)"

section \<open>Configuration and inventory\<close>

text \<open>
  \<open>Subnet\<close> holds the two fields of the inventory's subnet record that the
  validator reads. \<open>MachineNetworkEntry\<close> holds the network of a
  machine-network entry, \<open>Networking\<close> the entries. \<open>Metadata\<close> holds what
  each inventory lookup of this run returns: \<open>Inl\<close> the error, \<open>Inr\<close> the
  data.
\<close>

record Subnet =
  Zone :: string
  CIDR :: string

definition zeroSubnet :: Subnet where
  "zeroSubnet = \<lparr>Zone = [], CIDR = []\<rparr>"

record 'net MachineNetworkEntry =
  EntryCIDR :: 'net

record 'net Networking =
  MachineNetwork :: "'net MachineNetworkEntry list"

record InstanceType =
  DefaultVCpus :: "64 word"
  MemInMiB :: "64 word"

record Metadata =
  PrivateSubnets :: "error + Subnet gomap"
  PublicSubnets :: "error + Subnet gomap"
  AvailabilityZones :: "error + string list"
  InstanceTypes :: "error + (string \<rightharpoonup> InstanceType)"
  VPC :: "error + string"

type_synonym PublishingStrategy = string

definition ExternalPublishingStrategy :: PublishingStrategy where
  "ExternalPublishingStrategy = ''External''"

definition InternalPublishingStrategy :: PublishingStrategy where
  "InternalPublishingStrategy = ''Internal''"

text \<open>
  The configuration tree, with the fields the validator reads. A Go pointer field
  is an \<open>option\<close>: \<open>None\<close> is nil. \<open>MachinePool\<close> is the AWS machine-pool
  platform (\<^verbatim>\<open>awstypes.MachinePool\<close>), \<open>ClusterMachinePool\<close> the generic
  \<^verbatim>\<open>types.MachinePool\<close> around it. \<open>ClusterDomain\<close> holds the value of the
  \<^verbatim>\<open>ClusterDomain()\<close> method, which is declared outside this file.
  \<open>Networking\<close> is the networking section the configuration points to; the
  validator dereferences that pointer without a check, and the model takes what
  it points to.
\<close>

record MachinePool =
  Zones :: "string list"
  InstanceType :: string
  PoolAMIID :: string

record Platform =
  Region :: string
  Subnets :: "string list"
  AMIID :: string
  HostedZone :: string
  DefaultMachinePlatform :: "MachinePool option"

record ClusterMachinePool =
  Replicas :: "64 word option"
  PlatformAWS :: "MachinePool option"
  Architecture :: string

record 'net InstallConfig =
  ControlPlane :: "ClusterMachinePool option"
  Compute :: "ClusterMachinePool list"
  AWS :: "Platform option"
  Networking :: "'net Networking"
  Publish :: PublishingStrategy
  BaseDomain :: string
  ClusterDomain :: string

record resourceRequirements =
  minimumVCpus :: "64 word"
  minimumMemory :: "64 word"

definition controlPlaneReq :: resourceRequirements where
  "controlPlaneReq = \<lparr>minimumVCpus = 4, minimumMemory = 16384\<rparr>"

definition computeReq :: resourceRequirements where
  "computeReq = \<lparr>minimumVCpus = 2, minimumMemory = 8192\<rparr>"

text \<open>
  The DNS service as one run sees it: what \<^verbatim>\<open>GetHostedZone\<close> answers for a zone
  id, what the repository's \<^verbatim>\<open>GetPublicZone\<close> answers for a domain, and, for a
  zone id, the pages \<^verbatim>\<open>ListResourceRecordSetsPages\<close> hands to its callback
  with the error it returns at the end, if any. \<^verbatim>\<open>*string\<close> fields are options.
\<close>

record HostedZone =
  HostedZoneId :: "string option"
  HostedZoneName :: "string option"

record GetHostedZoneOutput =
  OutputHostedZone :: "HostedZone option"
  VPCs :: "string option list"

record ResourceRecordSet =
  RecordName :: "string option"
  RecordType :: "string option"

record Route53 =
  GetHostedZone :: "string \<Rightarrow> error + GetHostedZoneOutput"
  GetPublicZone :: "string \<Rightarrow> error + HostedZone"
  ListResourceRecordSetsPages :: "string option \<Rightarrow> ResourceRecordSet list list \<times> error option"

definition StringValueOf :: "string option \<Rightarrow> string" where
  "StringValueOf p = (case p of None \<Rightarrow> [] | Some s \<Rightarrow> s)"

definition Wrapf :: "error \<Rightarrow> string \<Rightarrow> error" where
  "Wrapf err msg = msg @ '': '' @ err"

section \<open>The topology validator\<close>

fun validateMachineNetworksContainIP ::
  "('ip, 'net) netlib \<Rightarrow> Path \<Rightarrow> 'net MachineNetworkEntry list \<Rightarrow> string \<Rightarrow> 'ip \<Rightarrow> ErrorList"
where
  "validateMachineNetworksContainIP L fldPath [] subnetName ip =
     [Invalid (Some fldPath) (StringValue subnetName)
        (''subnet'' @ [CHR 0x27] @ ''s CIDR range start '' @ IPString L ip
           @ '' is outside of the specified machine networks'')]"
| "validateMachineNetworksContainIP L fldPath (network # networks) subnetName ip =
     (if Contains L (EntryCIDR network) ip then []
      else validateMachineNetworksContainIP L fldPath networks subnetName ip)"

fun validateSubnetCIDR ::
  "('ip, 'net) netlib \<Rightarrow> Path \<Rightarrow> Subnet gomap \<Rightarrow> (string \<rightharpoonup> nat)
     \<Rightarrow> 'net MachineNetworkEntry list \<Rightarrow> ErrorList"
where
  "validateSubnetCIDR L fldPath [] idxMap networks = []"
| "validateSubnetCIDR L fldPath ((id', v) # subnets) idxMap networks =
     (let fp = PathIndex fldPath (indexOf idxMap id') in
        (case ParseCIDR L (CIDR v) of
           None \<Rightarrow> [Invalid (Some fp) (StringValue id') (ParseErrorText (CIDR v))]
         | Some (cidr, _) \<Rightarrow> validateMachineNetworksContainIP L fp networks id' cidr)
        @ validateSubnetCIDR L fldPath subnets idxMap networks)"

definition subnetOf :: "Subnet gomap \<Rightarrow> string \<Rightarrow> Subnet" where
  "subnetOf subnets id' = (case map_of subnets id' of None \<Rightarrow> zeroSubnet | Some s \<Rightarrow> s)"

fun duplicateZonesLoop ::
  "Path \<Rightarrow> Subnet gomap \<Rightarrow> (string \<rightharpoonup> nat) \<Rightarrow> string \<Rightarrow> (string \<rightharpoonup> string)
     \<Rightarrow> string list \<Rightarrow> ErrorList"
where
  "duplicateZonesLoop fldPath subnets idxMap typ zones [] = []"
| "duplicateZonesLoop fldPath subnets idxMap typ zones (id' # keys) =
     (let subnet = subnetOf subnets id' in
        (case zones (Zone subnet) of
           Some conflictingSubnet \<Rightarrow>
             Invalid (Some (PathIndex fldPath (indexOf idxMap id'))) (StringValue id')
               (typ @ '' subnet '' @ conflictingSubnet @ '' is also in zone '' @ Zone subnet)
             # duplicateZonesLoop fldPath subnets idxMap typ zones keys
         | None \<Rightarrow>
             duplicateZonesLoop fldPath subnets idxMap typ (zones(Zone subnet \<mapsto> id')) keys))"

definition validateDuplicateSubnetZones ::
  "Path \<Rightarrow> Subnet gomap \<Rightarrow> (string \<rightharpoonup> nat) \<Rightarrow> string \<Rightarrow> ErrorList"
where
  "validateDuplicateSubnetZones fldPath subnets idxMap typ =
     duplicateZonesLoop fldPath subnets idxMap typ Map.empty (sort (map fst subnets))"

fun subnetsIdxLoop ::
  "Subnet gomap \<Rightarrow> (string \<rightharpoonup> nat) \<Rightarrow> nat \<Rightarrow> string list \<Rightarrow> (string \<rightharpoonup> nat)"
where
  "subnetsIdxLoop live idxMap idx [] = idxMap"
| "subnetsIdxLoop live idxMap idx (id' # ids) =
     subnetsIdxLoop live (if hasKey live id' then idxMap(id' \<mapsto> idx) else idxMap) (Suc idx) ids"

definition subnetsIdx :: "Subnet gomap \<Rightarrow> string list \<Rightarrow> (string \<rightharpoonup> nat)" where
  "subnetsIdx live subnets = subnetsIdxLoop live Map.empty 0 subnets"

definition zonesOf :: "Subnet gomap \<Rightarrow> string set" where
  "zonesOf subnets = set (map (\<lambda>(id', subnet). Zone subnet) subnets)"

definition validateSubnets ::
  "('ip, 'net) netlib \<Rightarrow> Metadata \<Rightarrow> Path \<Rightarrow> string list \<Rightarrow> 'net Networking
     \<Rightarrow> PublishingStrategy \<Rightarrow> ErrorList"
where
  "validateSubnets L meta fldPath subnets networking publish =
     (case PrivateSubnets meta of
        Inl err \<Rightarrow> [Invalid (Some fldPath) (StringsValue subnets) err]
      | Inr privateSubnets \<Rightarrow>
          let privateSubnetsIdx = subnetsIdx privateSubnets subnets;
              allErrs = (if length privateSubnets = 0
                         then [Invalid (Some fldPath) (StringsValue subnets) ''No private subnets found'']
                         else [])
          in (case PublicSubnets meta of
                Inl err \<Rightarrow> allErrs @ [Invalid (Some fldPath) (StringsValue subnets) err]
              | Inr publicSubnets \<Rightarrow>
                  let publicSubnetsIdx = subnetsIdx publicSubnets subnets;
                      allErrs = allErrs
                        @ validateSubnetCIDR L fldPath privateSubnets privateSubnetsIdx (MachineNetwork networking)
                        @ validateSubnetCIDR L fldPath publicSubnets publicSubnetsIdx (MachineNetwork networking)
                        @ validateDuplicateSubnetZones fldPath privateSubnets privateSubnetsIdx ''private''
                        @ validateDuplicateSubnetZones fldPath publicSubnets publicSubnetsIdx ''public'';
                      privateZones = zonesOf privateSubnets;
                      publicZones = zonesOf publicSubnets
                  in if publish = ExternalPublishingStrategy \<and> \<not> privateZones \<subseteq> publicZones
                     then allErrs @ [Invalid (Some fldPath) (StringsValue subnets)
                            (''No public subnet provided for zones ''
                               @ SprintStrings (sorted_list_of_set (privateZones - publicZones)))]
                     else allErrs))"

section \<open>The resource requirement validator\<close>

text \<open>
  \<open>validateMachinePool\<close> in its two stages: the zone check, which can return
  early (\<open>Inl\<close> the list returned) when the inventory lookup fails, and the
  instance-type check, which extends the list of the zone check.
\<close>

definition availableZonesOf :: "Metadata \<Rightarrow> Platform \<Rightarrow> error + string set" where
  "availableZonesOf meta platform =
     (if length (Subnets platform) > 0
      then (case PrivateSubnets meta of
              Inl err \<Rightarrow> Inl err
            | Inr privateSubnets \<Rightarrow> Inr (zonesOf privateSubnets))
      else (case AvailabilityZones meta of
              Inl err \<Rightarrow> Inl err
            | Inr allzones \<Rightarrow> Inr (set allzones)))"

definition validateMachinePoolZones ::
  "Metadata \<Rightarrow> Path \<Rightarrow> Platform \<Rightarrow> MachinePool \<Rightarrow> ErrorList + ErrorList"
where
  "validateMachinePoolZones meta fldPath platform pool =
     (if length (Zones pool) > 0
      then (case availableZonesOf meta platform of
              Inl err \<Rightarrow> Inl [InternalError (Some fldPath) err]
            | Inr availableZones \<Rightarrow>
                let diff = set (Zones pool) - availableZones in
                  Inr (if card diff > 0
                       then [Invalid (Some (Child fldPath ''zones'' [])) (StringsValue (Zones pool))
                               (''No subnets provided for zones ''
                                  @ SprintStrings (sorted_list_of_set diff))]
                       else []))
      else Inr [])"

definition validateMachinePoolInstanceType ::
  "Metadata \<Rightarrow> Path \<Rightarrow> MachinePool \<Rightarrow> resourceRequirements \<Rightarrow> ErrorList \<Rightarrow> ErrorList"
where
  "validateMachinePoolInstanceType meta fldPath pool req allErrs =
     (if InstanceType pool \<noteq> []
      then (case InstanceTypes meta of
              Inl err \<Rightarrow> allErrs @ [InternalError (Some fldPath) err]
            | Inr instanceTypes \<Rightarrow>
                (case instanceTypes (InstanceType pool) of
                   Some typeMeta \<Rightarrow>
                     allErrs
                     @ (if DefaultVCpus typeMeta <s minimumVCpus req
                        then [Invalid (Some (Child fldPath ''type'' [])) (StringValue (InstanceType pool))
                                (''instance type does not meet minimum resource requirements of ''
                                   @ SprintInt (sint (minimumVCpus req)) @ '' vCPUs'')]
                        else [])
                     @ (if MemInMiB typeMeta <s minimumMemory req
                        then [Invalid (Some (Child fldPath ''type'' [])) (StringValue (InstanceType pool))
                                (''instance type does not meet minimum resource requirements of ''
                                   @ SprintInt (sint (minimumMemory req)) @ '' MiB Memory'')]
                        else [])
                 | None \<Rightarrow>
                     allErrs
                     @ [Invalid (Some (Child fldPath ''type'' [])) (StringValue (InstanceType pool))
                          (''instance type '' @ InstanceType pool @ '' not found'')]))
      else allErrs)"

definition validateMachinePool ::
  "Metadata \<Rightarrow> Path \<Rightarrow> Platform \<Rightarrow> MachinePool \<Rightarrow> resourceRequirements \<Rightarrow> ErrorList"
where
  "validateMachinePool meta fldPath platform pool req =
     (case validateMachinePoolZones meta fldPath platform pool of
        Inl returned \<Rightarrow> returned
      | Inr allErrs \<Rightarrow> validateMachinePoolInstanceType meta fldPath pool req allErrs)"

section \<open>The AMI check\<close>

text \<open>
  \<^verbatim>\<open>rhcos.AMIRegions\<close> (the regions with a stream AMI, by architecture) and
  \<^verbatim>\<open>endpoints.PartitionForRegion\<close> (the id of the partition that holds a
  region, when one does) are declared outside this file and are parameters.
\<close>

definition AwsPartitionID :: string where
  "AwsPartitionID = ''aws''"

definition poolHasAMI :: "ClusterMachinePool \<Rightarrow> bool" where
  "poolHasAMI c = (case PlatformAWS c of None \<Rightarrow> False | Some p \<Rightarrow> PoolAMIID p \<noteq> [])"

fun computesHaveAMISpecifiedLoop :: "bool \<Rightarrow> ClusterMachinePool list \<Rightarrow> bool" where
  "computesHaveAMISpecifiedLoop computesHaveAMISpecified [] = computesHaveAMISpecified"
| "computesHaveAMISpecifiedLoop computesHaveAMISpecified (c # cs) =
     (if Replicas c = Some 0 then computesHaveAMISpecifiedLoop computesHaveAMISpecified cs
      else if \<not> poolHasAMI c then computesHaveAMISpecifiedLoop False cs
      else computesHaveAMISpecifiedLoop computesHaveAMISpecified cs)"

definition validateAMI ::
  "(string \<Rightarrow> string set) \<Rightarrow> (string \<Rightarrow> string option) \<Rightarrow> 'net InstallConfig \<Rightarrow> panic + ErrorList"
where
  "validateAMI AMIRegions PartitionForRegion config =
     (case ControlPlane config of
        None \<Rightarrow> Inl NilPointerDereference
      | Some controlPlane \<Rightarrow>
     (case AWS config of
        None \<Rightarrow> Inl NilPointerDereference
      | Some platform \<Rightarrow>
          if Region platform \<in> AMIRegions (Architecture controlPlane) then Inr []
          else if AMIID platform \<noteq> [] then Inr []
          else if (case DefaultMachinePlatform platform of
                     None \<Rightarrow> False | Some d \<Rightarrow> PoolAMIID d \<noteq> []) then Inr []
          else
            let controlPlaneHasAMISpecified = poolHasAMI controlPlane;
                computesHaveAMISpecified = computesHaveAMISpecifiedLoop True (Compute config)
            in if controlPlaneHasAMISpecified \<and> computesHaveAMISpecified then Inr []
               else if (case PartitionForRegion (Region platform) of
                          None \<Rightarrow> False | Some partitionID \<Rightarrow> partitionID = AwsPartitionID)
               then Inr []
               else Inr [Required (Some (NewPath ''platform'' [''aws'', ''amiID'']))
                           ''AMI must be provided'']))"

section \<open>The entry point\<close>

text \<open>
  \<open>validateServiceEndpoints\<close> resolves and dials the configured endpoints; the
  list of diagnostics it returns in this run is the parameter
  \<open>serviceEndpointErrs\<close>. When the configuration has no AWS platform,
  \<open>Validate\<close> returns the required-field error as a plain error; the model
  returns it as the only element of the list. Otherwise the result is
  \<^verbatim>\<open>allErrs.ToAggregate()\<close>.
\<close>

definition validatePlatform ::
  "('ip, 'net) netlib \<Rightarrow> Metadata \<Rightarrow> ErrorList \<Rightarrow> Path \<Rightarrow> Platform \<Rightarrow> 'net Networking
     \<Rightarrow> PublishingStrategy \<Rightarrow> ErrorList"
where
  "validatePlatform L meta serviceEndpointErrs fldPath platform networking publish =
     (let allErrs = serviceEndpointErrs in
        if length allErrs > 0 then allErrs
        else
          let allErrs =
                (if length (Subnets platform) > 0
                 then allErrs @ validateSubnets L meta (Child fldPath ''subnets'' [])
                                  (Subnets platform) networking publish
                 else allErrs)
          in (case DefaultMachinePlatform platform of
                None \<Rightarrow> allErrs
              | Some defaultMachinePlatform \<Rightarrow>
                  allErrs @ validateMachinePool meta (Child fldPath ''defaultMachinePlatform'' [])
                              platform defaultMachinePlatform controlPlaneReq))"

fun validateComputePools :: "Metadata \<Rightarrow> Platform \<Rightarrow> nat \<Rightarrow> ClusterMachinePool list \<Rightarrow> ErrorList" where
  "validateComputePools meta platform idx [] = []"
| "validateComputePools meta platform idx (compute # computes) =
     (case PlatformAWS compute of
        None \<Rightarrow> []
      | Some pool \<Rightarrow>
          validateMachinePool meta (Child (PathIndex (NewPath ''compute'' []) idx) ''platform'' [''aws''])
            platform pool computeReq)
     @ validateComputePools meta platform (Suc idx) computes"

definition Validate ::
  "('ip, 'net) netlib \<Rightarrow> (Error \<Rightarrow> string) \<Rightarrow> (string \<Rightarrow> string set)
     \<Rightarrow> (string \<Rightarrow> string option) \<Rightarrow> Metadata \<Rightarrow> ErrorList \<Rightarrow> 'net InstallConfig
     \<Rightarrow> panic + ErrorList"
where
  "Validate L errorText AMIRegions PartitionForRegion meta serviceEndpointErrs config =
     (case AWS config of
        None \<Rightarrow>
          Inr [Required (Some (NewPath ''platform'' [''aws'']))
                 ''AWS validation requires an AWS platform configuration'']
      | Some platform \<Rightarrow>
          (case validateAMI AMIRegions PartitionForRegion config of
             Inl p \<Rightarrow> Inl p
           | Inr amiErrs \<Rightarrow>
               Inr (ToAggregate errorText
                   (amiErrs
                    @ validatePlatform L meta serviceEndpointErrs (NewPath ''platform'' [''aws''])
                        platform (Networking config) (Publish config)
                    @ (case ControlPlane config of
                         None \<Rightarrow> []
                       | Some controlPlane \<Rightarrow>
                           (case PlatformAWS controlPlane of
                              None \<Rightarrow> []
                            | Some pool \<Rightarrow>
                                validateMachinePool meta
                                  (NewPath ''controlPlane'' [''platform'', ''aws''])
                                  platform pool controlPlaneReq))
                    @ validateComputePools meta platform 0 (Compute config)))))"

section \<open>The pre-provision zone conflict validator\<close>

definition isHostedZoneAssociatedWithVPC :: "GetHostedZoneOutput option \<Rightarrow> string \<Rightarrow> panic + bool" where
  "isHostedZoneAssociatedWithVPC hostedZone vpcID =
     (if vpcID = [] then Inr False
      else (case hostedZone of
              None \<Rightarrow> Inl NilPointerDereference
            | Some out \<Rightarrow> Inr (list_ex (\<lambda>vpc. StringValueOf vpc = vpcID) (VPCs out))))"

definition isHostedZoneDomainParentOfClusterDomain :: "HostedZone option \<Rightarrow> string \<Rightarrow> panic + bool" where
  "isHostedZoneDomainParentOfClusterDomain hostedZone dottedClusterDomain =
     (case hostedZone of
        None \<Rightarrow> Inl NilPointerDereference
      | Some zone \<Rightarrow>
          (case HostedZoneName zone of
             None \<Rightarrow> Inl NilPointerDereference
           | Some name \<Rightarrow>
               Inr (name = dottedClusterDomain \<or> HasSuffix dottedClusterDomain (''.'' @ name))))"

fun problematicRecordsLoop :: "string \<Rightarrow> string list \<Rightarrow> ResourceRecordSet list \<Rightarrow> string list" where
  "problematicRecordsLoop dottedClusterDomain problematicRecords [] = problematicRecords"
| "problematicRecordsLoop dottedClusterDomain problematicRecords (recordSet # recordSets) =
     (let name = StringValueOf (RecordName recordSet) in
        if \<not> HasSuffix name dottedClusterDomain
        then problematicRecordsLoop dottedClusterDomain problematicRecords recordSets
        else if length name = length dottedClusterDomain
        then problematicRecordsLoop dottedClusterDomain problematicRecords recordSets
        else problematicRecordsLoop dottedClusterDomain
               (problematicRecords @ [name @ '' ('' @ StringValueOf (RecordType recordSet) @ '')''])
               recordSets)"

definition getSubDomainDNSRecords ::
  "Route53 \<Rightarrow> HostedZone option \<Rightarrow> 'net InstallConfig \<Rightarrow> panic + (string list \<times> error option)"
where
  "getSubDomainDNSRecords client hostedZone ic =
     (let dottedClusterDomain = ClusterDomain ic @ ''.'' in
        (case isHostedZoneDomainParentOfClusterDomain hostedZone dottedClusterDomain of
           Inl p \<Rightarrow> Inl p
         | Inr False \<Rightarrow>
             Inr ([], Some (''hosted zone domain ''
                     @ Quote (StringValueOf (case hostedZone of None \<Rightarrow> None | Some z \<Rightarrow> HostedZoneName z))
                     @ '' is not a parent of the cluster domain '' @ Quote dottedClusterDomain))
         | Inr True \<Rightarrow>
             (case ListResourceRecordSetsPages client
                     (case hostedZone of None \<Rightarrow> None | Some z \<Rightarrow> HostedZoneId z) of
                (pages, Some err) \<Rightarrow> Inr ([], Some err)
              | (pages, None) \<Rightarrow>
                  Inr (problematicRecordsLoop dottedClusterDomain [] (concat pages), None))))"

definition validateZoneRecords ::
  "Route53 \<Rightarrow> HostedZone option \<Rightarrow> string \<Rightarrow> Path option \<Rightarrow> 'net InstallConfig \<Rightarrow> panic + ErrorList"
where
  "validateZoneRecords client zone zoneName zonePath ic =
     (case getSubDomainDNSRecords client zone ic of
        Inl p \<Rightarrow> Inl p
      | Inr (problematicRecords, err) \<Rightarrow>
          Inr ((case err of
                  None \<Rightarrow> []
                | Some e \<Rightarrow>
                    [InternalError zonePath
                       (Wrapf e (''could not list record sets for domain '' @ Quote zoneName))])
               @ (if length problematicRecords > 0
                  then [Invalid zonePath (StringValue zoneName)
                          (''the zone already has record sets for the domain of the cluster: [''
                             @ joinWith '', '' problematicRecords @ '']'')]
                  else [])))"

definition getBaseDomain :: "Route53 \<Rightarrow> Path \<Rightarrow> string \<Rightarrow> HostedZone option \<times> ErrorList" where
  "getBaseDomain session baseDomainPath baseDomainName =
     (case GetPublicZone session baseDomainName of
        Inl err \<Rightarrow>
          (None, [Invalid (Some baseDomainPath) (StringValue baseDomainName) ''cannot find base domain''])
      | Inr baseDomainZone \<Rightarrow> (Some baseDomainZone, []))"

definition getHostedZone :: "Route53 \<Rightarrow> Path \<Rightarrow> string \<Rightarrow> GetHostedZoneOutput option \<times> ErrorList" where
  "getHostedZone client hostedZonePath hostedZoneName =
     (case GetHostedZone client hostedZoneName of
        Inl err \<Rightarrow>
          (None, [Invalid (Some hostedZonePath) (StringValue hostedZoneName) ''cannot find hosted zone''])
      | Inr hostedZoneOutput \<Rightarrow> (Some hostedZoneOutput, []))"

definition validateHostedZone ::
  "GetHostedZoneOutput option \<Rightarrow> Path \<Rightarrow> string \<Rightarrow> Metadata \<Rightarrow> panic + ErrorList"
where
  "validateHostedZone hostedZoneOutput hostedZonePath hostedZoneName metadata =
     (case VPC metadata of
        Inr vpcID \<Rightarrow>
          (case isHostedZoneAssociatedWithVPC hostedZoneOutput vpcID of
             Inl p \<Rightarrow> Inl p
           | Inr associated \<Rightarrow>
               Inr (if \<not> associated
                    then [Invalid (Some hostedZonePath) (StringValue hostedZoneName)
                            ''hosted zone is not associated with the VPC'']
                    else []))
      | Inl err \<Rightarrow>
          Inr [Invalid (Some hostedZonePath) (StringValue hostedZoneName) ''no VPC found''])"

text \<open>
  In \<open>ValidateForProvisioning\<close> both branches declare their own \<^verbatim>\<open>zoneName\<close>
  and \<^verbatim>\<open>zonePath\<close> with \<^verbatim>\<open>:=\<close>, so the call of \<open>validateZoneRecords\<close> after
  them receives the outer variables, which still hold the empty string and nil.
  The result is \<^verbatim>\<open>allErrs.ToAggregate()\<close>; the early return for the internal
  strategy is the nil error, the empty list.
\<close>

definition ValidateForProvisioning ::
  "(Error \<Rightarrow> string) \<Rightarrow> Route53 \<Rightarrow> 'net InstallConfig \<Rightarrow> Metadata \<Rightarrow> panic + ErrorList"
where
  "ValidateForProvisioning errorText client ic metadata =
     (if Publish ic = InternalPublishingStrategy then Inr []
      else
        (case AWS ic of
           None \<Rightarrow> Inl NilPointerDereference
         | Some platform \<Rightarrow>
             (case (if HostedZone platform \<noteq> []
                    then (let zoneName = HostedZone platform;
                              zonePath = NewPath ''aws'' [''hostedZone''];
                              (zoneOutput, errors) = getHostedZone client zonePath zoneName
                          in (case validateHostedZone zoneOutput zonePath zoneName metadata of
                                Inl p \<Rightarrow> Inl p
                              | Inr errors' \<Rightarrow>
                                  (case zoneOutput of
                                     None \<Rightarrow> Inl NilPointerDereference
                                   | Some out \<Rightarrow> Inr (OutputHostedZone out, errors @ errors'))))
                    else (let zoneName = BaseDomain ic;
                              zonePath = NewPath ''baseDomain'' [];
                              (zone, errors) = getBaseDomain client zonePath zoneName
                          in Inr (zone, errors))) of
                Inl p \<Rightarrow> Inl p
              | Inr (zone, allErrs) \<Rightarrow>
                  (case validateZoneRecords client zone [] None ic of
                     Inl p \<Rightarrow> Inl p
                   | Inr errors \<Rightarrow> Inr (ToAggregate errorText (allErrs @ errors))))))"

section \<open>Predicates of the claims and example inputs\<close>

text \<open>
  \<open>addressInside\<close>: the CIDR of a subnet parses and the address it yields lies
  inside some machine-network entry, which is what \<open>validateSubnetCIDR\<close> asks
  of a subnet.
\<close>

definition addressInside ::
  "('ip, 'net) netlib \<Rightarrow> 'net MachineNetworkEntry list \<Rightarrow> Subnet \<Rightarrow> bool"
where
  "addressInside L networks v =
     (case ParseCIDR L (CIDR v) of
        None \<Rightarrow> False
      | Some (ip, _) \<Rightarrow> list_ex (\<lambda>network. Contains L (EntryCIDR network) ip) networks)"

text \<open>
  The example inventory: the given results of the two subnet lookups, the zones
  \<open>a\<close>, \<open>b\<close>, \<open>c\<close>, a catalog that holds the instance type
  \<^verbatim>\<open>t2.nano\<close> with 1 vCPU and 512 MiB, and the VPC \<^verbatim>\<open>vpc-1\<close>. The
  example machine network is \<^verbatim>\<open>10.0.0.0/16\<close> (the address \<^verbatim>\<open>10.0.0.0\<close> is
  the number 167772160). \<open>subnetsPath\<close> is the field path that
  \<open>validatePlatform\<close> hands to \<open>validateSubnets\<close>.
\<close>

definition exampleMetadata :: "error + Subnet gomap \<Rightarrow> error + Subnet gomap \<Rightarrow> Metadata" where
  "exampleMetadata privateSubnets publicSubnets =
     \<lparr>PrivateSubnets = privateSubnets, PublicSubnets = publicSubnets,
      AvailabilityZones = Inr [''a'', ''b'', ''c''],
      InstanceTypes = Inr [''t2.nano'' \<mapsto> \<lparr>DefaultVCpus = 1, MemInMiB = 512\<rparr>],
      VPC = Inr ''vpc-1''\<rparr>"

definition exampleNetworking :: "IPNet Networking" where
  "exampleNetworking = \<lparr>MachineNetwork = [\<lparr>EntryCIDR = \<lparr>IP = 167772160, Ones = 16\<rparr>\<rparr>]\<rparr>"

definition subnetsPath :: Path where
  "subnetsPath = Child (NewPath ''platform'' [''aws'']) ''subnets'' []"

definition subnetA :: Subnet where
  "subnetA = \<lparr>Zone = ''a'', CIDR = ''10.0.0.0/24''\<rparr>"

definition subnetB :: Subnet where
  "subnetB = \<lparr>Zone = ''b'', CIDR = ''10.0.1.0/24''\<rparr>"

text \<open>
  \<open>exemptOrHasAMI\<close>: a compute pool has zero replicas or names an AMI.
  \<open>exampleAMIConfig\<close>: a region with no stream AMI outside the standard
  partition, an AMI on the control plane, a compute pool with zero replicas and
  no AMI, and a compute pool with an AMI.
\<close>

definition exampleAMIConfig :: "IPNet InstallConfig" where
  "exampleAMIConfig =
     \<lparr>ControlPlane = Some \<lparr>Replicas = Some 3,
                             PlatformAWS = Some \<lparr>Zones = [], InstanceType = [], PoolAMIID = ''ami-1''\<rparr>,
                             Architecture = ''amd64''\<rparr>,
      Compute = [\<lparr>Replicas = Some 0, PlatformAWS = None, Architecture = ''amd64''\<rparr>,
                 \<lparr>Replicas = None,
                  PlatformAWS = Some \<lparr>Zones = [], InstanceType = [], PoolAMIID = ''ami-2''\<rparr>,
                  Architecture = ''amd64''\<rparr>],
      AWS = Some \<lparr>Region = ''us-iso-east-1'', Subnets = [], AMIID = [], HostedZone = [],
                   DefaultMachinePlatform = None\<rparr>,
      Networking = exampleNetworking, Publish = ''External'', BaseDomain = ''example.com'',
      ClusterDomain = ''cluster.example.com''\<rparr>"

definition exemptOrHasAMI :: "ClusterMachinePool \<Rightarrow> bool" where
  "exemptOrHasAMI c = (Replicas c = Some 0 \<or> poolHasAMI c)"

text \<open>
  \<open>outsideSubnets\<close>: two private subnets whose CIDRs lie outside the example
  machine network. \<open>sharedZoneSubnets\<close>: two subnets of one tier in the same
  zone.
\<close>

definition outsideSubnets :: "Subnet gomap" where
  "outsideSubnets = [(''subnet-a'', \<lparr>Zone = ''a'', CIDR = ''192.168.0.0/24''\<rparr>),
                     (''subnet-b'', \<lparr>Zone = ''b'', CIDR = ''192.168.1.0/24''\<rparr>)]"


text \<open>
  \<open>isCoverageGap\<close>: a diagnostic of the coverage check, recognised by the
  fixed start of its message. \<open>threeZonePrivate\<close> and \<open>twoZonePublic\<close>:
  private subnets in the zones \<open>a\<close>, \<open>b\<close>, \<open>c\<close> and public subnets in the zones
  \<open>a\<close>, \<open>b\<close>.
\<close>

definition coverageGapPrefix :: string where
  "coverageGapPrefix = ''No public subnet provided for zones ''"

definition isCoverageGap :: "Error \<Rightarrow> bool" where
  "isCoverageGap d = (take (length coverageGapPrefix) (Detail d) = coverageGapPrefix)"

definition threeZonePrivate :: "Subnet gomap" where
  "threeZonePrivate = [(''subnet-a'', subnetA), (''subnet-b'', subnetB),
                       (''subnet-c'', \<lparr>Zone = ''c'', CIDR = ''10.0.2.0/24''\<rparr>)]"

definition twoZonePublic :: "Subnet gomap" where
  "twoZonePublic = [(''subnet-p'', \<lparr>Zone = ''a'', CIDR = ''10.0.3.0/24''\<rparr>),
                    (''subnet-q'', \<lparr>Zone = ''b'', CIDR = ''10.0.4.0/24''\<rparr>)]"

text \<open>
  \<open>outsideText\<close>: the message of \<open>validateMachineNetworksContainIP\<close> for an
  address. \<open>mixedSubnets\<close>: a subnet inside the example machine network, one
  outside it, and one whose CIDR has no prefix length.
\<close>

definition mixedSubnets :: "Subnet gomap" where
  "mixedSubnets = [(''subnet-a'', subnetA),
                   (''subnet-o'', \<lparr>Zone = ''b'', CIDR = ''192.168.0.0/24''\<rparr>),
                   (''subnet-u'', \<lparr>Zone = ''c'', CIDR = ''10.0.0.0''\<rparr>)]"

definition outsideText :: "('ip, 'net) netlib \<Rightarrow> 'ip \<Rightarrow> string" where
  "outsideText L ip = ''subnet'' @ [CHR 0x27] @ ''s CIDR range start '' @ IPString L ip
           @ '' is outside of the specified machine networks''"

text \<open>
  Example inputs of \<open>validateMachinePool\<close>: a platform with one declared
  subnet, the field path of the control-plane pool, a pool whose instance type
  is in the example catalog below both control-plane minima, and a pool whose
  instance type is not in the catalog.
\<close>

definition examplePlatform :: Platform where
  "examplePlatform = \<lparr>Region = ''us-east-1'', Subnets = [''subnet-a''], AMIID = [],
                       HostedZone = [], DefaultMachinePlatform = None\<rparr>"

definition poolPath :: Path where
  "poolPath = NewPath ''controlPlane'' [''platform'', ''aws'']"

definition smallPool :: MachinePool where
  "smallPool = \<lparr>Zones = [''a''], InstanceType = ''t2.nano'', PoolAMIID = []\<rparr>"

definition unknownPool :: MachinePool where
  "unknownPool = \<lparr>Zones = [''a''], InstanceType = ''m9.unknown'', PoolAMIID = []\<rparr>"

text \<open>
  \<open>strictSubDomain\<close> follows the specification's words: a name is a strict
  sub-domain of a domain when it ends with a dot followed by the domain and has
  a label before that dot. The examples: the hosted zone \<^verbatim>\<open>example.com.\<close>,
  a configuration with the cluster domain \<^verbatim>\<open>cluster.example.com\<close> and the
  hosted zone id \<^verbatim>\<open>Z1\<close>, a DNS service that knows the zone and lists the
  given records in one page, and one whose \<^verbatim>\<open>GetHostedZone\<close> fails.
\<close>

definition strictSubDomain :: "string \<Rightarrow> string \<Rightarrow> bool" where
  "strictSubDomain name domain =
     (HasSuffix name (CHR ''.'' # domain) \<and> Suc (length domain) < length name)"

definition exampleZone :: HostedZone where
  "exampleZone = \<lparr>HostedZoneId = Some ''Z1'', HostedZoneName = Some ''example.com.''\<rparr>"

definition exampleInstallConfig :: "IPNet InstallConfig" where
  "exampleInstallConfig =
     \<lparr>ControlPlane = None, Compute = [],
      AWS = Some \<lparr>Region = ''us-east-1'', Subnets = [], AMIID = [], HostedZone = ''Z1'',
                   DefaultMachinePlatform = None\<rparr>,
      Networking = exampleNetworking, Publish = ''External'', BaseDomain = ''example.com'',
      ClusterDomain = ''cluster.example.com''\<rparr>"

definition exampleClient :: "ResourceRecordSet list \<Rightarrow> Route53" where
  "exampleClient records =
     \<lparr>GetHostedZone = (\<lambda>zoneId. if zoneId = ''Z1''
                          then Inr \<lparr>OutputHostedZone = Some exampleZone, VPCs = [Some ''vpc-1'']\<rparr>
                          else Inl ''NoSuchHostedZone''),
      GetPublicZone = (\<lambda>name. Inr exampleZone),
      ListResourceRecordSetsPages = (\<lambda>zoneId. ([records], None))\<rparr>"

definition failingClient :: Route53 where
  "failingClient =
     \<lparr>GetHostedZone = (\<lambda>zoneId. Inl ''NoSuchHostedZone''),
      GetPublicZone = (\<lambda>name. Inr exampleZone),
      ListResourceRecordSetsPages = (\<lambda>zoneId. ([], None))\<rparr>"

text \<open>
  \<open>outsideConfig\<close>: a configuration that declares the two subnets of
  \<open>outsideSubnets\<close>, in a region with a stream AMI, with no machine-pool
  platform, so that the diagnostics of \<open>Validate\<close> are those of
  \<open>validateSubnets\<close>.
\<close>

definition outsideConfig :: "IPNet InstallConfig" where
  "outsideConfig =
     \<lparr>ControlPlane = Some \<lparr>Replicas = Some 3, PlatformAWS = None, Architecture = ''amd64''\<rparr>,
      Compute = [],
      AWS = Some \<lparr>Region = ''us-east-1'', Subnets = [''subnet-a'', ''subnet-b''], AMIID = [],
                   HostedZone = [], DefaultMachinePlatform = None\<rparr>,
      Networking = exampleNetworking, Publish = ''Internal'', BaseDomain = ''example.com'',
      ClusterDomain = ''cluster.example.com''\<rparr>"

section \<open>Evaluation on concrete inputs\<close>

lemmas ipv4_eval = ipv4_def ParseCIDR4_def parseIPv4_def dtoi_def isDigit_def digitValue_def
  Contains4_def IPString4_def SprintNat.simps digitChar_def

lemmas validator_eval = validateSubnets_def Let_def subnetsIdx_def hasKey_def indexOf_def
  validateDuplicateSubnetZones_def subnetOf_def zonesOf_def Invalid_def PathIndex_def
  SprintStrings_def ExternalPublishingStrategy_def InternalPublishingStrategy_def
  exampleMetadata_def exampleNetworking_def subnetA_def subnetB_def subnetsPath_def
  NewPath_def Child_def ParseErrorText_def

text \<open>
  The networks of the examples, as \<open>ParseCIDR4\<close> reads them from their CIDR
  strings.
\<close>

lemma exampleNetworking_parsed:
  "ParseCIDR4 ''10.0.0.0/16'' = Some (167772160, \<lparr>IP = 167772160, Ones = 16\<rparr>)
   \<and> MachineNetwork exampleNetworking = [\<lparr>EntryCIDR = \<lparr>IP = 167772160, Ones = 16\<rparr>\<rparr>]"
  by (simp add: exampleNetworking_def ipv4_eval)

lemma narrowNetwork_parsed:
  "ParseCIDR4 ''10.0.1.0/24'' = Some (167772416, \<lparr>IP = 167772416, Ones = 24\<rparr>)"
  by (simp add: ipv4_eval)

section \<open>Auxiliary facts about the topology validator\<close>

lemma containIP_cases:
  "validateMachineNetworksContainIP L fp networks name ip =
     (if list_ex (\<lambda>network. Contains L (EntryCIDR network) ip) networks then []
      else [Invalid (Some fp) (StringValue name)
        (''subnet'' @ [CHR 0x27] @ ''s CIDR range start '' @ IPString L ip
           @ '' is outside of the specified machine networks'')])"
  by (induction networks) auto

lemma validateSubnetCIDR_inside:
  "list_all (addressInside L networks) (map snd subnets)
     \<Longrightarrow> validateSubnetCIDR L fldPath subnets idxMap networks = []"
  by (induction subnets) (auto simp: addressInside_def containIP_cases split: option.splits)

lemma subnetOf_entry:
  "distinct (map fst subnets) \<Longrightarrow> (k, v) \<in> set subnets \<Longrightarrow> subnetOf subnets k = v"
  by (simp add: subnetOf_def)

lemma duplicateZonesLoop_no_conflict:
  "distinct (map (\<lambda>k. Zone (subnetOf subnets k)) keys)
     \<Longrightarrow> \<forall>k \<in> set keys. zones (Zone (subnetOf subnets k)) = None
     \<Longrightarrow> duplicateZonesLoop fldPath subnets idxMap typ zones keys = []"
proof (induction keys arbitrary: zones)
  case Nil
  then show ?case by simp
next
  case (Cons k keys)
  have notin: "Zone (subnetOf subnets k) \<notin> (\<lambda>k. Zone (subnetOf subnets k)) ` set keys"
    using Cons.prems(1) by simp
  have fresh: "Zone (subnetOf subnets k') \<noteq> Zone (subnetOf subnets k)" if "k' \<in> set keys" for k'
  proof
    assume "Zone (subnetOf subnets k') = Zone (subnetOf subnets k)"
    then have "Zone (subnetOf subnets k) \<in> (\<lambda>k. Zone (subnetOf subnets k)) ` set keys"
      using that by (intro image_eqI [where x = k']) simp_all
    with notin show False by simp
  qed
  have "duplicateZonesLoop fldPath subnets idxMap typ (zones(Zone (subnetOf subnets k) \<mapsto> k)) keys = []"
  proof (rule Cons.IH)
    show "distinct (map (\<lambda>k. Zone (subnetOf subnets k)) keys)" using Cons.prems(1) by simp
    show "\<forall>k' \<in> set keys. (zones(Zone (subnetOf subnets k) \<mapsto> k)) (Zone (subnetOf subnets k')) = None"
      using Cons.prems(2) fresh by simp
  qed
  with Cons.prems show ?case by (simp add: Let_def)
qed

lemma zones_of_keys_distinct:
  assumes "distinct (map fst subnets)" and "distinct (map (\<lambda>(k, v). Zone v) subnets)"
  shows "distinct (map (\<lambda>k. Zone (subnetOf subnets k)) (sort (map fst subnets)))"
proof -
  have inj: "inj_on (\<lambda>(k, v). Zone v) (set subnets)"
    using assms(2) by (simp add: distinct_map)
  have "inj_on (\<lambda>k. Zone (subnetOf subnets k)) (fst ` set subnets)"
  proof (rule inj_onI)
    fix x y assume "x \<in> fst ` set subnets" "y \<in> fst ` set subnets"
      and eq: "Zone (subnetOf subnets x) = Zone (subnetOf subnets y)"
    then obtain vx vy where m: "(x, vx) \<in> set subnets" "(y, vy) \<in> set subnets" by auto
    have "subnetOf subnets x = vx" using assms(1) m(1) by (rule subnetOf_entry)
    moreover have "subnetOf subnets y = vy" using assms(1) m(2) by (rule subnetOf_entry)
    ultimately have "(\<lambda>(k, v). Zone v) (x, vx) = (\<lambda>(k, v). Zone v) (y, vy)" using eq by simp
    then have "(x, vx) = (y, vy)" using inj_onD [OF inj _ m] by blast
    then show "x = y" by simp
  qed
  moreover have "distinct (sort (map fst subnets))" using assms(1) by simp
  ultimately show ?thesis by (simp add: distinct_map)
qed

lemma validateDuplicateSubnetZones_distinct:
  "distinct (map fst subnets) \<Longrightarrow> distinct (map (\<lambda>(k, v). Zone v) subnets)
     \<Longrightarrow> validateDuplicateSubnetZones fldPath subnets idxMap typ = []"
  unfolding validateDuplicateSubnetZones_def
  by (rule duplicateZonesLoop_no_conflict) (simp_all add: zones_of_keys_distinct)

lemma hasKey_iff: "hasKey m k \<longleftrightarrow> k \<in> fst ` set m"
  by (simp add: hasKey_def map_of_eq_None_iff)

lemma validateSubnetCIDR_values:
  "d \<in> set (validateSubnetCIDR L fldPath subnets idxMap networks)
     \<Longrightarrow> \<exists>k \<in> fst ` set subnets. BadValue d = StringValue k"
  by (induction subnets)
     (auto simp: containIP_cases Invalid_def Let_def split: option.splits if_splits)

lemma duplicateZonesLoop_values:
  "d \<in> set (duplicateZonesLoop fldPath subnets idxMap typ zones keys)
     \<Longrightarrow> \<exists>k \<in> set keys. BadValue d = StringValue k"
  by (induction keys arbitrary: zones) (auto simp: Invalid_def Let_def split: option.splits)

lemma validateDuplicateSubnetZones_values:
  "d \<in> set (validateDuplicateSubnetZones fldPath subnets idxMap typ)
     \<Longrightarrow> \<exists>k \<in> fst ` set subnets. BadValue d = StringValue k"
  unfolding validateDuplicateSubnetZones_def
  by (drule duplicateZonesLoop_values) simp

section \<open>Claims about the topology validator\<close>

text \<open>
  Claim C1, as the specification states it: whenever the live reconciliation
  yields at least one private subnet, every subnet of the private and of the
  public set has a parsable CIDR inside some machine-network entry, and the
  zones are pairwise distinct within each tier, \<open>validateSubnets\<close> returns no
  diagnostic, for every publishing strategy. This fails for the external
  strategy: one private subnet in zone \<open>a\<close> and no public subnet meet every
  condition, and the coverage check reports the zone.
\<close>

theorem validateSubnets_no_diagnostics_counterexample:
  "PrivateSubnets (exampleMetadata (Inr [(''subnet-a'', subnetA)]) (Inr [])) = Inr [(''subnet-a'', subnetA)]
   \<and> PublicSubnets (exampleMetadata (Inr [(''subnet-a'', subnetA)]) (Inr [])) = Inr []
   \<and> list_all (addressInside ipv4 (MachineNetwork exampleNetworking)) (map snd [(''subnet-a'', subnetA)])
   \<and> distinct (map (\<lambda>(k, v). Zone v) [(''subnet-a'', subnetA)])
   \<and> validateSubnets ipv4 (exampleMetadata (Inr [(''subnet-a'', subnetA)]) (Inr []))
        subnetsPath [''subnet-a''] exampleNetworking ExternalPublishingStrategy
      = [Invalid (Some subnetsPath) (StringsValue [''subnet-a''])
           ''No public subnet provided for zones [a]'']"
  by (simp add: validator_eval ipv4_eval addressInside_def)

text \<open>
  Claim C1, amended: under the same conditions \<open>validateSubnets\<close> returns no
  diagnostic whenever the publishing strategy is not external or every zone of
  a private subnet is also the zone of a public subnet. The keys of each map
  are distinct, as the keys of a Go map are.
\<close>

theorem validateSubnets_no_diagnostics:
  assumes "PrivateSubnets meta = Inr privateSubnets" and "PublicSubnets meta = Inr publicSubnets"
    and "privateSubnets \<noteq> []"
    and "distinct (map fst privateSubnets)" and "distinct (map fst publicSubnets)"
    and "list_all (addressInside L (MachineNetwork networking)) (map snd privateSubnets)"
    and "list_all (addressInside L (MachineNetwork networking)) (map snd publicSubnets)"
    and "distinct (map (\<lambda>(k, v). Zone v) privateSubnets)"
    and "distinct (map (\<lambda>(k, v). Zone v) publicSubnets)"
    and "publish \<noteq> ExternalPublishingStrategy \<or> zonesOf privateSubnets \<subseteq> zonesOf publicSubnets"
  shows "validateSubnets L meta fldPath subnets networking publish = []"
  using assms
  by (auto simp: validateSubnets_def Let_def validateSubnetCIDR_inside
      validateDuplicateSubnetZones_distinct)

theorem validateSubnets_no_diagnostics_witness:
  "validateSubnets ipv4
     (exampleMetadata (Inr [(''subnet-a'', subnetA), (''subnet-b'', subnetB)])
        (Inr [(''subnet-p'', \<lparr>Zone = ''a'', CIDR = ''10.0.2.0/24''\<rparr>),
              (''subnet-q'', \<lparr>Zone = ''b'', CIDR = ''10.0.3.0/24''\<rparr>)]))
     subnetsPath [''subnet-a'', ''subnet-b'', ''subnet-p'', ''subnet-q''] exampleNetworking
     ExternalPublishingStrategy = []"
  by (rule validateSubnets_no_diagnostics
        [where privateSubnets = "[(''subnet-a'', subnetA), (''subnet-b'', subnetB)]"
           and publicSubnets = "[(''subnet-p'', \<lparr>Zone = ''a'', CIDR = ''10.0.2.0/24''\<rparr>),
              (''subnet-q'', \<lparr>Zone = ''b'', CIDR = ''10.0.3.0/24''\<rparr>)]"]; simp add: validator_eval ipv4_eval addressInside_def)

text \<open>
  Claim C2, as the specification states it: a declared subnet id that is in
  neither the live private set nor the live public set gets a diagnostic from
  \<open>validateSubnets\<close>. The code has no such check: with \<open>subnet-x\<close> declared
  and in neither set, the result is empty.
\<close>

theorem validateSubnets_unclassified_id_counterexample:
  "''subnet-x'' \<in> set [''subnet-x'', ''subnet-a'']
   \<and> \<not> hasKey [(''subnet-a'', subnetA)] ''subnet-x''
   \<and> \<not> hasKey ([] :: Subnet gomap) ''subnet-x''
   \<and> validateSubnets ipv4 (exampleMetadata (Inr [(''subnet-a'', subnetA)]) (Inr []))
        subnetsPath [''subnet-x'', ''subnet-a''] exampleNetworking InternalPublishingStrategy = []"
  by (simp add: validator_eval ipv4_eval addressInside_def)

text \<open>
  Claim C2, amended: for a declared subnet id that is in neither the live
  private set nor the live public set, no diagnostic of \<open>validateSubnets\<close> has
  that id as its offending value: the id is left out of both index maps and is
  not looked at again.
\<close>

theorem validateSubnets_unclassified_id_not_reported:
  assumes "id' \<in> set subnets"
    and "PrivateSubnets meta = Inr privateSubnets" and "PublicSubnets meta = Inr publicSubnets"
    and "\<not> hasKey privateSubnets id'" and "\<not> hasKey publicSubnets id'"
  shows "list_all (\<lambda>d. BadValue d \<noteq> StringValue id')
           (validateSubnets L meta fldPath subnets networking publish)"
proof -
  have "BadValue d \<noteq> StringValue id'"
    if "d \<in> set (validateSubnets L meta fldPath subnets networking publish)" for d
  proof -
    from that assms(2,3) consider
        "BadValue d = StringsValue subnets"
      | "\<exists>k \<in> fst ` set privateSubnets. BadValue d = StringValue k"
      | "\<exists>k \<in> fst ` set publicSubnets. BadValue d = StringValue k"
      by (auto simp: validateSubnets_def Let_def Invalid_def split: if_splits
            dest!: validateSubnetCIDR_values validateDuplicateSubnetZones_values)
    then show ?thesis
      using assms(4,5) by cases (force simp: hasKey_iff)+
  qed
  then show ?thesis by (simp add: list_all_iff)
qed

theorem validateSubnets_unclassified_id_not_reported_witness:
  "list_all (\<lambda>d. BadValue d \<noteq> StringValue ''subnet-x'')
     (validateSubnets ipv4
        (exampleMetadata (Inr [(''subnet-a'', subnetA), (''subnet-b'', \<lparr>Zone = ''a'', CIDR = ''192.168.0.0/24''\<rparr>)]) (Inr []))
        subnetsPath [''subnet-x'', ''subnet-a'', ''subnet-b''] exampleNetworking ExternalPublishingStrategy)"
  by (rule validateSubnets_unclassified_id_not_reported
        [where privateSubnets = "[(''subnet-a'', subnetA), (''subnet-b'', \<lparr>Zone = ''a'', CIDR = ''192.168.0.0/24''\<rparr>)]"
           and publicSubnets = "[]"]; simp add: validator_eval ipv4_eval addressInside_def)

text \<open>
  The zone sets and the duplicate-zone check do not depend on the order in which
  a map is visited: the first is a set, the second sorts the keys. This is why
  one list order stands for all the \<^verbatim>\<open>range\<close> loops over a map.
\<close>

lemma zonesOf_range_order: "set xs = set ys \<Longrightarrow> zonesOf xs = zonesOf ys"
  by (simp add: zonesOf_def)

lemma duplicateZonesLoop_same_map:
  "(\<And>k. subnetOf xs k = subnetOf ys k)
     \<Longrightarrow> duplicateZonesLoop fldPath xs idxMap typ zones keys
         = duplicateZonesLoop fldPath ys idxMap typ zones keys"
  by (induction keys arbitrary: zones) (simp_all add: Let_def split: option.splits)

lemma validateDuplicateSubnetZones_range_order:
  assumes "distinct (map fst xs)" and "distinct (map fst ys)" and "set xs = set ys"
  shows "validateDuplicateSubnetZones fldPath xs idxMap typ
           = validateDuplicateSubnetZones fldPath ys idxMap typ"
proof -
  have "map_of xs = map_of ys"
    using assms by (simp add: map_of_inject_set)
  then have same: "subnetOf xs k = subnetOf ys k" for k
    by (simp add: subnetOf_def)
  have "set (map fst xs) = set (map fst ys)"
    using assms(3) by simp
  then have "sort (map fst xs) = sort (map fst ys)"
    using assms(1,2) by (intro sorted_distinct_set_unique) simp_all
  then show ?thesis
    by (simp add: validateDuplicateSubnetZones_def duplicateZonesLoop_same_map [OF same])
qed

lemma outsideSubnets_same_map: "map_of (rev outsideSubnets) = map_of outsideSubnets"
  by (rule ext) (simp add: outsideSubnets_def)

text \<open>
  \<open>validateSubnetCIDR\<close> appends its diagnostics in the order of the visit.
\<close>

lemma validateSubnets_outside_forward:
  "validateSubnets ipv4 (exampleMetadata (Inr outsideSubnets) (Inr []))
        subnetsPath [''subnet-a'', ''subnet-b''] exampleNetworking InternalPublishingStrategy
      = [Invalid (Some (PathIndex subnetsPath 0)) (StringValue ''subnet-a'')
           (''subnet'' @ [CHR 0x27] @ ''s CIDR range start 192.168.0.0 is outside of the specified machine networks''),
         Invalid (Some (PathIndex subnetsPath 1)) (StringValue ''subnet-b'')
           (''subnet'' @ [CHR 0x27] @ ''s CIDR range start 192.168.1.0 is outside of the specified machine networks'')]"
  by (simp add: outsideSubnets_def validator_eval ipv4_eval)

lemma validateSubnets_outside_backward:
  "validateSubnets ipv4 (exampleMetadata (Inr (rev outsideSubnets)) (Inr []))
        subnetsPath [''subnet-a'', ''subnet-b''] exampleNetworking InternalPublishingStrategy
      = [Invalid (Some (PathIndex subnetsPath 1)) (StringValue ''subnet-b'')
           (''subnet'' @ [CHR 0x27] @ ''s CIDR range start 192.168.1.0 is outside of the specified machine networks''),
         Invalid (Some (PathIndex subnetsPath 0)) (StringValue ''subnet-a'')
           (''subnet'' @ [CHR 0x27] @ ''s CIDR range start 192.168.0.0 is outside of the specified machine networks'')]"
  by (simp add: outsideSubnets_def validator_eval ipv4_eval)

lemma validateSubnets_depends_on_range_order:
  "map_of (rev outsideSubnets) = map_of outsideSubnets
   \<and> validateSubnets ipv4 (exampleMetadata (Inr (rev outsideSubnets)) (Inr []))
         subnetsPath [''subnet-a'', ''subnet-b''] exampleNetworking InternalPublishingStrategy
       \<noteq> validateSubnets ipv4 (exampleMetadata (Inr outsideSubnets) (Inr []))
         subnetsPath [''subnet-a'', ''subnet-b''] exampleNetworking InternalPublishingStrategy"
  unfolding validateSubnets_outside_forward validateSubnets_outside_backward
  by (simp add: outsideSubnets_same_map Invalid_def)

lemma ToAggregate_two:
  "ToAggregate errorText [d, e] = (if errorText e = errorText d then [d] else [d, e])"
  by (simp add: ToAggregate_def Let_def)

lemma Validate_outsideConfig:
  "Validate ipv4 errorText (\<lambda>arch. {''us-east-1''}) (\<lambda>region. Some ''aws'')
      (exampleMetadata (Inr live) (Inr [])) [] outsideConfig
   = Inr (ToAggregate errorText
            (validateSubnets ipv4 (exampleMetadata (Inr live) (Inr [])) subnetsPath
               [''subnet-a'', ''subnet-b''] exampleNetworking InternalPublishingStrategy))"
  by (simp add: Validate_def validateAMI_def validatePlatform_def outsideConfig_def
        subnetsPath_def InternalPublishingStrategy_def)

text \<open>
  Claim C3 says that two runs of the full validation over the same
  configuration and the same live data give the same diagnostics in the same
  order. \<open>validateSubnetCIDR\<close> appends its diagnostics in the order in which
  \<^verbatim>\<open>range\<close> visits the map, and Go does not fix that order: the same map,
  visited in its two possible orders, makes \<open>Validate\<close> return the two
  diagnostics of \<open>outsideSubnets\<close> in opposite orders, whatever the rendering
  that \<open>ToAggregate\<close> compares. \<open>validateDuplicateSubnetZones\<close> sorts the
  keys first; \<open>validateSubnetCIDR\<close> does not.
\<close>

theorem Validate_depends_on_range_order:
  "map_of (rev outsideSubnets) = map_of outsideSubnets
   \<and> Validate ipv4 errorText (\<lambda>arch. {''us-east-1''}) (\<lambda>region. Some ''aws'')
         (exampleMetadata (Inr (rev outsideSubnets)) (Inr [])) [] outsideConfig
       \<noteq> Validate ipv4 errorText (\<lambda>arch. {''us-east-1''}) (\<lambda>region. Some ''aws'')
         (exampleMetadata (Inr outsideSubnets) (Inr [])) [] outsideConfig"
  unfolding Validate_outsideConfig validateSubnets_outside_forward validateSubnets_outside_backward
    ToAggregate_two
  by (simp add: outsideSubnets_same_map Invalid_def)




lemma validateSubnetCIDR_not_gap:
  "filter isCoverageGap (validateSubnetCIDR L fldPath subnets idxMap networks) = []"
  by (induction subnets)
     (auto simp: containIP_cases Invalid_def Let_def ParseErrorText_def isCoverageGap_def
        coverageGapPrefix_def split: option.splits)

lemma duplicateZonesLoop_not_gap:
  "typ = c # cs \<Longrightarrow> c \<noteq> CHR ''N''
     \<Longrightarrow> filter isCoverageGap (duplicateZonesLoop fldPath subnets idxMap typ zones keys) = []"
  by (induction keys arbitrary: zones)
     (auto simp: Invalid_def Let_def isCoverageGap_def coverageGapPrefix_def split: option.splits)

lemma validateDuplicateSubnetZones_not_gap:
  "typ = c # cs \<Longrightarrow> c \<noteq> CHR ''N''
     \<Longrightarrow> filter isCoverageGap (validateDuplicateSubnetZones fldPath subnets idxMap typ) = []"
  unfolding validateDuplicateSubnetZones_def by (rule duplicateZonesLoop_not_gap)

lemma zonesOf_nonempty: "zonesOf subnets \<noteq> {} \<Longrightarrow> subnets \<noteq> []"
  by (auto simp: zonesOf_def)

text \<open>
  Claim C7: with the external publishing strategy, private subnets covering
  exactly the zones \<open>a\<close>, \<open>b\<close>, \<open>c\<close> and public subnets covering exactly
  \<open>a\<close>, \<open>b\<close>, the diagnostics of \<open>validateSubnets\<close> hold exactly one
  coverage-gap diagnostic, and it names the zone \<open>c\<close> alone.
\<close>

theorem validateSubnets_coverage_gap:
  assumes "PrivateSubnets meta = Inr privateSubnets" and "PublicSubnets meta = Inr publicSubnets"
    and "publish = ExternalPublishingStrategy"
    and "zonesOf privateSubnets = {a, b, c}" and "zonesOf publicSubnets = {a, b}"
    and "c \<noteq> a" and "c \<noteq> b"
  shows "filter isCoverageGap (validateSubnets L meta fldPath subnets networking publish) =
           [Invalid (Some fldPath) (StringsValue subnets)
              (''No public subnet provided for zones ['' @ c @ '']'')]"
proof -
  have nonempty: "privateSubnets \<noteq> []"
    using assms(4) by (intro zonesOf_nonempty) simp
  have notsub: "\<not> zonesOf privateSubnets \<subseteq> zonesOf publicSubnets"
    using assms(4-7) by auto
  have diff: "zonesOf privateSubnets - zonesOf publicSubnets = {c}"
    using assms(4-7) by auto
  have gap: "isCoverageGap (Invalid (Some fldPath) (StringsValue subnets)
               (''No public subnet provided for zones ['' @ c @ '']''))"
    by (simp add: isCoverageGap_def coverageGapPrefix_def Invalid_def)
  have priv: "filter isCoverageGap
                (validateDuplicateSubnetZones fldPath privateSubnets idx ''private'') = []" for idx
    by (rule validateDuplicateSubnetZones_not_gap [where c = "CHR ''p''"]) simp_all
  have pub: "filter isCoverageGap
               (validateDuplicateSubnetZones fldPath publicSubnets idx ''public'') = []" for idx
    by (rule validateDuplicateSubnetZones_not_gap [where c = "CHR ''p''"]) simp_all
  show ?thesis
    using gap
    by (simp add: validateSubnets_def assms(1-3) Let_def nonempty notsub diff
          validateSubnetCIDR_not_gap priv pub SprintStrings_def)
qed

theorem validateSubnets_coverage_gap_witness:
  "filter isCoverageGap
     (validateSubnets ipv4 (exampleMetadata (Inr threeZonePrivate) (Inr twoZonePublic)) subnetsPath
        [''subnet-a'', ''subnet-b'', ''subnet-c'', ''subnet-p'', ''subnet-q'']
        exampleNetworking ExternalPublishingStrategy)
   = [Invalid (Some subnetsPath)
        (StringsValue [''subnet-a'', ''subnet-b'', ''subnet-c'', ''subnet-p'', ''subnet-q''])
        ''No public subnet provided for zones [c]'']"
  using validateSubnets_coverage_gap
          [of "exampleMetadata (Inr threeZonePrivate) (Inr twoZonePublic)" threeZonePrivate
              twoZonePublic ExternalPublishingStrategy "''a''" "''b''" "''c''" ipv4 subnetsPath
              "[''subnet-a'', ''subnet-b'', ''subnet-c'', ''subnet-p'', ''subnet-q'']"
              exampleNetworking]
  by (simp add: exampleMetadata_def threeZonePrivate_def twoZonePublic_def zonesOf_def
        subnetA_def subnetB_def)

lemma validateSubnetCIDR_other_ids:
  assumes "id' \<notin> fst ` set subnets"
  shows "filter (\<lambda>d. BadValue d = StringValue id')
           (validateSubnetCIDR L fldPath subnets idxMap networks) = []"
proof -
  have "BadValue d \<noteq> StringValue id'"
    if "d \<in> set (validateSubnetCIDR L fldPath subnets idxMap networks)" for d
    using validateSubnetCIDR_values [OF that] assms by force
  then show ?thesis by (simp add: filter_empty_conv)
qed

text \<open>
  When both lookups succeed, the diagnostics of \<open>validateSubnetCIDR\<close> for the
  private and for the public set are diagnostics of \<open>validateSubnets\<close>.
\<close>

lemma validateSubnets_includes_CIDR_diagnostics:
  assumes "PrivateSubnets meta = Inr privateSubnets" and "PublicSubnets meta = Inr publicSubnets"
  shows "set (validateSubnetCIDR L fldPath privateSubnets (subnetsIdx privateSubnets subnets)
                (MachineNetwork networking))
         \<union> set (validateSubnetCIDR L fldPath publicSubnets (subnetsIdx publicSubnets subnets)
                (MachineNetwork networking))
         \<subseteq> set (validateSubnets L meta fldPath subnets networking publish)"
  by (auto simp: validateSubnets_def assms Let_def)

text \<open>
  What \<open>validateSubnetCIDR\<close> reports about one subnet of the set: when the
  CIDR does not parse, one diagnostic with the parse error; when it parses, one
  diagnostic if the address that \<^verbatim>\<open>net.ParseCIDR\<close> returns first, the address
  as the string writes it, lies inside no machine-network entry, and none
  otherwise.
\<close>

lemma validateSubnetCIDR_per_subnet:
  assumes "distinct (map fst subnets)" and "(id', v) \<in> set subnets"
  shows "filter (\<lambda>d. BadValue d = StringValue id')
           (validateSubnetCIDR L fldPath subnets idxMap networks) =
         (case ParseCIDR L (CIDR v) of
            None \<Rightarrow> [Invalid (Some (PathIndex fldPath (indexOf idxMap id'))) (StringValue id')
                        (ParseErrorText (CIDR v))]
          | Some (ip, ipnet) \<Rightarrow>
              if list_ex (\<lambda>network. Contains L (EntryCIDR network) ip) networks then []
              else [Invalid (Some (PathIndex fldPath (indexOf idxMap id'))) (StringValue id')
                      (outsideText L ip)])"
  using assms
proof (induction subnets)
  case Nil
  then show ?case by simp
next
  case (Cons entry subnets)
  obtain k w where entry: "entry = (k, w)" by (cases entry)
  show ?case
  proof (cases "k = id'")
    case True
    with Cons.prems entry have "w = v" and "id' \<notin> fst ` set subnets"
      by (auto simp: image_iff)
    then have rest: "filter (\<lambda>d. BadValue d = StringValue id')
                 (validateSubnetCIDR L fldPath subnets idxMap networks) = []"
      by (simp add: validateSubnetCIDR_other_ids)
    show ?thesis
      using True \<open>w = v\<close> rest
      by (simp add: entry Let_def containIP_cases Invalid_def outsideText_def split: option.splits)
  next
    case False
    with Cons.prems entry have "distinct (map fst subnets)" and "(id', v) \<in> set subnets"
      by auto
    then have IH: "filter (\<lambda>d. BadValue d = StringValue id')
           (validateSubnetCIDR L fldPath subnets idxMap networks) =
         (case ParseCIDR L (CIDR v) of
            None \<Rightarrow> [Invalid (Some (PathIndex fldPath (indexOf idxMap id'))) (StringValue id')
                        (ParseErrorText (CIDR v))]
          | Some (ip, ipnet) \<Rightarrow>
              if list_ex (\<lambda>network. Contains L (EntryCIDR network) ip) networks then []
              else [Invalid (Some (PathIndex fldPath (indexOf idxMap id'))) (StringValue id')
                      (outsideText L ip)])"
      by (rule Cons.IH)
    have "filter (\<lambda>d. BadValue d = StringValue id')
            (case ParseCIDR L (CIDR w) of
               None \<Rightarrow> [Invalid (Some (PathIndex fldPath (indexOf idxMap k))) (StringValue k)
                           (ParseErrorText (CIDR w))]
             | Some (cidr, x) \<Rightarrow>
                 validateMachineNetworksContainIP L (PathIndex fldPath (indexOf idxMap k))
                   networks k cidr) = []"
      using False by (auto simp: containIP_cases Invalid_def split: option.splits)
    then show ?thesis
      by (simp add: entry Let_def IH)
  qed
qed

lemma validateSubnetCIDR_per_subnet_examples:
  "filter (\<lambda>d. BadValue d = StringValue ''subnet-a'')
     (validateSubnetCIDR ipv4 subnetsPath mixedSubnets
        (subnetsIdx mixedSubnets [''subnet-a'', ''subnet-o'', ''subnet-u''])
        (MachineNetwork exampleNetworking)) = []
   \<and> filter (\<lambda>d. BadValue d = StringValue ''subnet-o'')
     (validateSubnetCIDR ipv4 subnetsPath mixedSubnets
        (subnetsIdx mixedSubnets [''subnet-a'', ''subnet-o'', ''subnet-u''])
        (MachineNetwork exampleNetworking))
     = [Invalid (Some (PathIndex subnetsPath 1)) (StringValue ''subnet-o'')
          (''subnet'' @ [CHR 0x27]
             @ ''s CIDR range start 192.168.0.0 is outside of the specified machine networks'')]
   \<and> filter (\<lambda>d. BadValue d = StringValue ''subnet-u'')
     (validateSubnetCIDR ipv4 subnetsPath mixedSubnets
        (subnetsIdx mixedSubnets [''subnet-a'', ''subnet-o'', ''subnet-u''])
        (MachineNetwork exampleNetworking))
     = [Invalid (Some (PathIndex subnetsPath 2)) (StringValue ''subnet-u'')
          ''invalid CIDR address: 10.0.0.0'']"
  using validateSubnetCIDR_per_subnet
          [of mixedSubnets "''subnet-a''" subnetA ipv4 subnetsPath
              "subnetsIdx mixedSubnets [''subnet-a'', ''subnet-o'', ''subnet-u'']"
              "MachineNetwork exampleNetworking"]
        validateSubnetCIDR_per_subnet
          [of mixedSubnets "''subnet-o''" "\<lparr>Zone = ''b'', CIDR = ''192.168.0.0/24''\<rparr>" ipv4
              subnetsPath "subnetsIdx mixedSubnets [''subnet-a'', ''subnet-o'', ''subnet-u'']"
              "MachineNetwork exampleNetworking"]
        validateSubnetCIDR_per_subnet
          [of mixedSubnets "''subnet-u''" "\<lparr>Zone = ''c'', CIDR = ''10.0.0.0''\<rparr>" ipv4
              subnetsPath "subnetsIdx mixedSubnets [''subnet-a'', ''subnet-o'', ''subnet-u'']"
              "MachineNetwork exampleNetworking"]
  by (simp add: mixedSubnets_def outsideText_def validator_eval ipv4_eval)

text \<open>
  For a CIDR written as a block, that is, one whose written address is the
  network address of the network it denotes, this is what the specification
  says: the diagnostic is reported if and only if the network address lies
  inside no machine-network entry. \<open>networkAddress\<close> is any reading of the
  network address of a parsed network, such as the field \<^verbatim>\<open>IP\<close> of
  \<^verbatim>\<open>net.IPNet\<close>.
\<close>

lemma validateSubnetCIDR_block:
  assumes "distinct (map fst subnets)" and "(id', v) \<in> set subnets"
    and "ParseCIDR L (CIDR v) = Some (ip, ipnet)" and "networkAddress ipnet = ip"
  shows "filter (\<lambda>d. BadValue d = StringValue id')
           (validateSubnetCIDR L fldPath subnets idxMap networks) =
         (if list_ex (\<lambda>network. Contains L (EntryCIDR network) (networkAddress ipnet)) networks
          then []
          else [Invalid (Some (PathIndex fldPath (indexOf idxMap id'))) (StringValue id')
                  (outsideText L (networkAddress ipnet))])"
  using validateSubnetCIDR_per_subnet [OF assms(1,2), of L fldPath idxMap networks] assms(3,4)
  by simp


section \<open>Claims about the resource requirement validator\<close>

lemmas pool_eval = validateMachinePool_def validateMachinePoolZones_def
  validateMachinePoolInstanceType_def availableZonesOf_def examplePlatform_def poolPath_def
  smallPool_def unknownPool_def controlPlaneReq_def computeReq_def InternalError_def
  SprintInt_def word_sless_alt

text \<open>
  The zone check returns early exactly when the pool declares zones and the
  inventory lookup behind the available zones fails.
\<close>

lemma validateMachinePoolZones_returns_early:
  "(\<exists>returned. validateMachinePoolZones meta fldPath platform pool = Inl returned)
     \<longleftrightarrow> Zones pool \<noteq> [] \<and> (\<exists>err. availableZonesOf meta platform = Inl err)"
  by (auto simp: validateMachinePoolZones_def Let_def split: sum.splits)

text \<open>
  Claim C8, as the specification states it: for every machine pool whose
  instance type is in the catalog below both minima, \<open>validateMachinePool\<close>
  appends exactly two instance-type diagnostics. A pool that also declares
  zones is checked for them first, and when the inventory lookup of that check
  fails the function returns the internal error at once: the instance type is
  never looked up and no instance-type diagnostic is appended.
\<close>

theorem validateMachinePool_lookup_failure_counterexample:
  "(case InstanceTypes (exampleMetadata (Inl ''RequestError'') (Inr [])) of
      Inl err \<Rightarrow> None | Inr instanceTypes \<Rightarrow> instanceTypes (InstanceType smallPool))
     = Some \<lparr>DefaultVCpus = 1, MemInMiB = 512\<rparr>
   \<and> (1 :: 64 word) <s minimumVCpus controlPlaneReq
   \<and> (512 :: 64 word) <s minimumMemory controlPlaneReq
   \<and> validateMachinePool (exampleMetadata (Inl ''RequestError'') (Inr [])) poolPath
         examplePlatform smallPool controlPlaneReq
       = [InternalError (Some poolPath) ''RequestError'']"
  by (simp add: pool_eval validator_eval)

text \<open>
  Claim C8, amended: when the zone check did not return early on a failed
  inventory lookup, a declared instance type that is in the catalog with vCPU
  count below the minimum and memory below the minimum appends exactly two
  diagnostics to those of the zone check, the vCPU one and then the memory one;
  a declared instance type that is not in the catalog appends exactly one, the
  not-found diagnostic.
\<close>

theorem validateMachinePool_instance_type:
  assumes "validateMachinePoolZones meta fldPath platform pool = Inr zoneErrs"
    and "InstanceType pool \<noteq> []" and "InstanceTypes meta = Inr instanceTypes"
  shows "(\<forall>typeMeta. instanceTypes (InstanceType pool) = Some typeMeta
             \<and> DefaultVCpus typeMeta <s minimumVCpus req
             \<and> MemInMiB typeMeta <s minimumMemory req
           \<longrightarrow> validateMachinePool meta fldPath platform pool req =
                 zoneErrs @
                 [Invalid (Some (Child fldPath ''type'' [])) (StringValue (InstanceType pool))
                    (''instance type does not meet minimum resource requirements of ''
                       @ SprintInt (sint (minimumVCpus req)) @ '' vCPUs''),
                  Invalid (Some (Child fldPath ''type'' [])) (StringValue (InstanceType pool))
                    (''instance type does not meet minimum resource requirements of ''
                       @ SprintInt (sint (minimumMemory req)) @ '' MiB Memory'')])
         \<and> (instanceTypes (InstanceType pool) = None
           \<longrightarrow> validateMachinePool meta fldPath platform pool req =
                 zoneErrs @
                 [Invalid (Some (Child fldPath ''type'' [])) (StringValue (InstanceType pool))
                    (''instance type '' @ InstanceType pool @ '' not found'')])"
  using assms by (simp add: validateMachinePool_def validateMachinePoolInstanceType_def)

theorem validateMachinePool_instance_type_witness:
  "validateMachinePool (exampleMetadata (Inr [(''subnet-a'', subnetA)]) (Inr [])) poolPath
      examplePlatform smallPool controlPlaneReq
     = [Invalid (Some (Child poolPath ''type'' [])) (StringValue ''t2.nano'')
          ''instance type does not meet minimum resource requirements of 4 vCPUs'',
        Invalid (Some (Child poolPath ''type'' [])) (StringValue ''t2.nano'')
          ''instance type does not meet minimum resource requirements of 16384 MiB Memory'']
   \<and> validateMachinePool (exampleMetadata (Inr [(''subnet-a'', subnetA)]) (Inr [])) poolPath
      examplePlatform unknownPool controlPlaneReq
     = [Invalid (Some (Child poolPath ''type'' [])) (StringValue ''m9.unknown'')
          ''instance type m9.unknown not found'']"
  using validateMachinePool_instance_type
          [of "exampleMetadata (Inr [(''subnet-a'', subnetA)]) (Inr [])" poolPath examplePlatform
              smallPool "[]" "[''t2.nano'' \<mapsto> \<lparr>DefaultVCpus = 1, MemInMiB = 512\<rparr>]"
              controlPlaneReq]
        validateMachinePool_instance_type
          [of "exampleMetadata (Inr [(''subnet-a'', subnetA)]) (Inr [])" poolPath examplePlatform
              unknownPool "[]" "[''t2.nano'' \<mapsto> \<lparr>DefaultVCpus = 1, MemInMiB = 512\<rparr>]"
              controlPlaneReq]
  by (simp add: pool_eval validator_eval ipv4_eval)

section \<open>Claims about the AMI check\<close>

lemma computesHaveAMISpecifiedLoop_all:
  "list_all exemptOrHasAMI cs \<Longrightarrow> computesHaveAMISpecifiedLoop b cs = b"
  by (induction cs arbitrary: b) (auto simp: exemptOrHasAMI_def)

text \<open>
  For contrast: the same configuration with one compute pool of one replica and
  no AMI is refused.
\<close>

lemma validateAMI_one_replica_needs_AMI:
  "validateAMI (\<lambda>arch. {''us-east-1''}) (\<lambda>region. None)
     (exampleAMIConfig\<lparr>Compute := [\<lparr>Replicas = Some 1, PlatformAWS = None, Architecture = ''amd64''\<rparr>]\<rparr>)
   = Inr [Required (Some (NewPath ''platform'' [''aws'', ''amiID''])) ''AMI must be provided'']"
  by (simp add: validateAMI_def exampleAMIConfig_def poolHasAMI_def)

text \<open>
  Claim C10: a compute pool whose replica count is explicitly zero is exempt
  from the per-pool AMI requirement. When the region resolves no stream AMI, no
  AMI is set at the platform level or on the default machine platform, and the
  region is not in the standard partition, \<open>validateAMI\<close> still returns no
  diagnostic whenever the control plane names an AMI and every compute pool
  either names an AMI or has zero replicas.
\<close>

theorem validateAMI_zero_replicas_exempt:
  assumes "ControlPlane config = Some controlPlane" and "AWS config = Some platform"
    and "Region platform \<notin> AMIRegions (Architecture controlPlane)"
    and "AMIID platform = []"
    and "case DefaultMachinePlatform platform of None \<Rightarrow> True | Some d \<Rightarrow> PoolAMIID d = []"
    and "PartitionForRegion (Region platform) \<noteq> Some AwsPartitionID"
    and "poolHasAMI controlPlane"
    and "list_all exemptOrHasAMI (Compute config)"
  shows "validateAMI AMIRegions PartitionForRegion config = Inr []"
  using assms
  by (auto simp: validateAMI_def Let_def computesHaveAMISpecifiedLoop_all split: option.splits)

theorem validateAMI_zero_replicas_exempt_witness:
  "validateAMI (\<lambda>arch. {''us-east-1''}) (\<lambda>region. None) exampleAMIConfig = Inr []"
  by (rule validateAMI_zero_replicas_exempt
        [where controlPlane = "\<lparr>Replicas = Some 3,
                             PlatformAWS = Some \<lparr>Zones = [], InstanceType = [], PoolAMIID = ''ami-1''\<rparr>,
                             Architecture = ''amd64''\<rparr>"
           and platform = "\<lparr>Region = ''us-iso-east-1'', Subnets = [], AMIID = [], HostedZone = [],
                   DefaultMachinePlatform = None\<rparr>"];
      simp add: exampleAMIConfig_def poolHasAMI_def exemptOrHasAMI_def)

section \<open>Claims about the pre-provision zone conflict validator\<close>

lemmas dns_eval = getSubDomainDNSRecords_def isHostedZoneDomainParentOfClusterDomain_def
  HasSuffix_def StringValueOf_def exampleZone_def exampleInstallConfig_def exampleClient_def
  failingClient_def Let_def strictSubDomain_def

text \<open>
  What the callback of \<open>getSubDomainDNSRecords\<close> collects: the records whose
  name has the dotted cluster domain as a suffix and a different length.
\<close>

lemma problematicRecordsLoop_filter:
  "problematicRecordsLoop dottedClusterDomain problematicRecords recordSets =
     problematicRecords @
     map (\<lambda>recordSet. StringValueOf (RecordName recordSet) @ '' (''
                          @ StringValueOf (RecordType recordSet) @ '')'')
       (filter (\<lambda>recordSet. HasSuffix (StringValueOf (RecordName recordSet)) dottedClusterDomain
                   \<and> length (StringValueOf (RecordName recordSet)) \<noteq> length dottedClusterDomain)
          recordSets)"
  by (induction recordSets arbitrary: problematicRecords) (simp_all add: Let_def)

text \<open>
  The example of the specification: in the zone \<^verbatim>\<open>example.com.\<close>, of the
  records \<^verbatim>\<open>api.cluster.example.com.\<close> and \<^verbatim>\<open>example.com.\<close> (and the cluster
  domain itself) only the first is reported.
\<close>

lemma getSubDomainDNSRecords_spec_example:
  "getSubDomainDNSRecords
     (exampleClient [\<lparr>RecordName = Some ''api.cluster.example.com.'', RecordType = Some ''A''\<rparr>,
                     \<lparr>RecordName = Some ''example.com.'', RecordType = Some ''NS''\<rparr>,
                     \<lparr>RecordName = Some ''cluster.example.com.'', RecordType = Some ''NS''\<rparr>])
     (Some exampleZone) exampleInstallConfig
   = Inr ([''api.cluster.example.com. (A)''], None)"
  by (simp add: dns_eval)

text \<open>
  Claim C6 says that a record is flagged if and only if its name is a strict
  sub-domain of the dotted cluster domain, so that a name that is no
  sub-domain is never flagged. The code tests the suffix without the dot in
  front of it: \<^verbatim>\<open>mycluster.example.com.\<close> ends with \<^verbatim>\<open>cluster.example.com.\<close>,
  is not a sub-domain of it, and is flagged. \<open>isHostedZoneDomainParentOfClusterDomain\<close>
  puts the dot in front of the suffix it tests.
\<close>

theorem getSubDomainDNSRecords_flags_sibling_domain:
  "getSubDomainDNSRecords
     (exampleClient [\<lparr>RecordName = Some ''mycluster.example.com.'', RecordType = Some ''A''\<rparr>])
     (Some exampleZone) exampleInstallConfig
   = Inr ([''mycluster.example.com. (A)''], None)
   \<and> \<not> strictSubDomain ''mycluster.example.com.'' ''cluster.example.com.''
   \<and> strictSubDomain ''api.cluster.example.com.'' ''cluster.example.com.''"
  by (simp add: dns_eval)

lemma panic_unique: "(p :: panic) = NilPointerDereference"
  by (cases p) simp

text \<open>
  Claim C5 says that \<open>ValidateForProvisioning\<close> completes and returns the
  diagnostics collected so far when the lookup of the hosted zone by id fails.
  On that path \<open>getHostedZone\<close> returns a nil output, and the function
  dereferences it (in \<open>isHostedZoneAssociatedWithVPC\<close> when the VPC id is
  known, in \<^verbatim>\<open>zoneOutput.HostedZone\<close> otherwise): every such run panics.
\<close>

theorem ValidateForProvisioning_hosted_zone_lookup_failure:
  assumes "Publish ic \<noteq> InternalPublishingStrategy" and "AWS ic = Some platform"
    and "HostedZone platform \<noteq> []"
    and "GetHostedZone client (HostedZone platform) = Inl err"
  shows "ValidateForProvisioning errorText client ic metadata = Inl NilPointerDereference"
proof -
  have lookup: "getHostedZone client (NewPath ''aws'' [''hostedZone'']) (HostedZone platform) =
          (None, [Invalid (Some (NewPath ''aws'' [''hostedZone''])) (StringValue (HostedZone platform))
                    ''cannot find hosted zone''])"
    by (simp add: getHostedZone_def assms(4))
  show ?thesis
    using panic_unique
    by (simp add: ValidateForProvisioning_def assms(1-3) lookup Let_def split: sum.splits)
qed

theorem ValidateForProvisioning_hosted_zone_lookup_failure_witness:
  "\<forall>errorText. ValidateForProvisioning errorText failingClient exampleInstallConfig
     (exampleMetadata (Inr []) (Inr [])) = Inl NilPointerDereference"
  by (intro allI) (rule ValidateForProvisioning_hosted_zone_lookup_failure
        [where platform = "\<lparr>Region = ''us-east-1'', Subnets = [], AMIID = [], HostedZone = ''Z1'',
                   DefaultMachinePlatform = None\<rparr>" and err = "''NoSuchHostedZone''"];
      simp add: exampleInstallConfig_def failingClient_def InternalPublishingStrategy_def)

text \<open>
  For contrast: when the lookup succeeds and the zone holds no record under the
  cluster domain, the run returns no diagnostic.
\<close>

lemma ValidateForProvisioning_no_conflict:
  "ValidateForProvisioning errorText
     (exampleClient [\<lparr>RecordName = Some ''example.com.'', RecordType = Some ''NS''\<rparr>])
     exampleInstallConfig (exampleMetadata (Inr []) (Inr [])) = Inr []"
  by (simp add: ValidateForProvisioning_def ToAggregate_def validateZoneRecords_def validateHostedZone_def
        isHostedZoneAssociatedWithVPC_def getHostedZone_def exampleMetadata_def
        InternalPublishingStrategy_def dns_eval)

end
